theory Spec2Isabelle
  imports Main "HOL-Library.Word"
begin

section \<open>The training front end of CURFIL (src/curfil/train.cpp)\<close>

text \<open>
  The program \<open>main\<close> of \<open>train.cpp\<close> probes the free memory of the selected GPUs, sizes
  the image cache, sizes the feature-evaluation batch, assembles the training configuration
  and calls the trainer. The embedding follows the source line by line. The C++ integer
  types are modelled at their LP64 widths: \<open>size_t\<close> and \<open>long\<close> are 64-bit words,
  \<open>int\<close> and \<open>unsigned int\<close> are 32-bit words, \<open>uint16_t\<close> is a 16-bit word. Unsigned
  arithmetic wraps; a signed reading of a word is \<open>sint\<close>.
\<close>

subsection \<open>Machine types\<close>

type_synonym size_t = "64 word"
type_synonym c_long = "64 word"
type_synonym c_int = "32 word"
type_synonym c_uint = "32 word"
type_synonym uint16_t = "16 word"

text \<open>
  Every \<open>throw std::runtime_error(msg)\<close> of \<open>main\<close> is a value \<open>runtime_error msg\<close>.
  Two operations of the source have no defined result on some operands (an integer
  division by zero, a conversion of a \<open>double\<close> that does not fit an \<open>int\<close>); the model
  makes them an outcome of their own instead of inventing a value.
\<close>

datatype error =
    runtime_error string
  | division_by_zero
  | double_to_int_out_of_range

subsection \<open>Lines 145-156: the free memory of the selected devices\<close>

text \<open>
  \<^verbatim>\<open>if (deviceIds.empty()) { INFO(...); deviceIds.push_back(0); }\<close>
\<close>

definition default_deviceIds :: "c_int list \<Rightarrow> c_int list" where
  "default_deviceIds deviceIds = (if deviceIds = [] then [0] else deviceIds)"

text \<open>
  \<^verbatim>\<open>
  size_t freeMemoryOnGPU = 0;
  for (int deviceId : deviceIds) {
      size_t freeMemory = utils::getFreeMemoryOnGPU(deviceId);
      if (freeMemoryOnGPU == 0 || freeMemory < freeMemoryOnGPU) {
          freeMemoryOnGPU = freeMemory;
      }
  }
  \<close>
  The query \<open>utils::getFreeMemoryOnGPU\<close> is not part of this file; the model takes it as a
  parameter. The loop is a recursion over the device list that carries the variable
  \<open>freeMemoryOnGPU\<close>.
\<close>

fun probe_loop :: "(c_int \<Rightarrow> size_t) \<Rightarrow> size_t \<Rightarrow> c_int list \<Rightarrow> size_t" where
  "probe_loop getFreeMemoryOnGPU freeMemoryOnGPU [] = freeMemoryOnGPU"
| "probe_loop getFreeMemoryOnGPU freeMemoryOnGPU (deviceId # deviceIds) =
     (let freeMemory = getFreeMemoryOnGPU deviceId
      in probe_loop getFreeMemoryOnGPU
           (if freeMemoryOnGPU = 0 \<or> freeMemory < freeMemoryOnGPU
            then freeMemory else freeMemoryOnGPU)
           deviceIds)"

definition probe_freeMemoryOnGPU :: "(c_int \<Rightarrow> size_t) \<Rightarrow> c_int list \<Rightarrow> size_t" where
  "probe_freeMemoryOnGPU getFreeMemoryOnGPU deviceIds =
     probe_loop getFreeMemoryOnGPU 0 deviceIds"

subsection \<open>Lines 158-160: the automatic cache size, in double precision\<close>

text \<open>
  \<^verbatim>\<open>
  if (imageCacheSizeMB == 0) {
      imageCacheSizeMB = freeMemoryOnGPU * 0.66 / 1024 / 1024;
  }
  \<close>
  The right-hand side is evaluated in IEEE-754 binary64: \<open>freeMemoryOnGPU\<close> is converted
  to \<open>double\<close>, multiplied by the \<open>double\<close> nearest to 0.66, divided twice by 1024, and
  truncated towards zero on assignment to the \<open>int\<close>. A finite non-negative \<open>double\<close> is
  modelled as a pair \<open>(m, e)\<close> of a significand and a binary exponent, with value
  \<open>m * 2 ^ e\<close>; every operation rounds its exact result to 53 significant bits, to nearest,
  ties to even. No value of this computation is subnormal or overflows the exponent range.
\<close>

type_synonym dbl = "nat \<times> int"

fun bitlen_nat :: "nat \<Rightarrow> nat" where
  "bitlen_nat n = (if n = 0 then 0 else Suc (bitlen_nat (n div 2)))"

declare bitlen_nat.simps [simp del]

definition round_half_even :: "nat \<Rightarrow> nat \<Rightarrow> nat" where
  "round_half_even n s =
     (let q = n div 2 ^ s; r = n mod 2 ^ s
      in if 2 * r > 2 ^ s \<or> (2 * r = 2 ^ s \<and> odd q) then q + 1 else q)"

definition dbl_round :: "dbl \<Rightarrow> dbl" where
  "dbl_round d =
     (case d of (m, e) \<Rightarrow>
        let b = bitlen_nat m
        in if b \<le> 53 then (m, e)
           else (round_half_even m (b - 53), e + int (b - 53)))"

definition dbl_of_size_t :: "size_t \<Rightarrow> dbl" where
  "dbl_of_size_t x = dbl_round (unat x, 0)"

definition dbl_times :: "dbl \<Rightarrow> dbl \<Rightarrow> dbl" where
  "dbl_times a b = (case a of (m1, e1) \<Rightarrow> case b of (m2, e2) \<Rightarrow> dbl_round (m1 * m2, e1 + e2))"

text \<open>The literal \<open>0.66\<close>: the binary64 number \<open>5944751508129055 / 2 ^ 53\<close>.\<close>

definition dbl_0_66 :: dbl where
  "dbl_0_66 = (5944751508129055, - 53)"

text \<open>Division by 1024 is exact: it lowers the exponent by ten.\<close>

definition dbl_div_1024 :: "dbl \<Rightarrow> dbl" where
  "dbl_div_1024 d = (case d of (m, e) \<Rightarrow> (m, e - 10))"

text \<open>Truncation towards zero, as an unbounded integer.\<close>

definition dbl_trunc :: "dbl \<Rightarrow> nat" where
  "dbl_trunc d = (case d of (m, e) \<Rightarrow> if 0 \<le> e then m * 2 ^ nat e else m div 2 ^ nat (- e))"

text \<open>
  The conversion to \<open>int\<close> is defined only when the truncated value fits; the values here
  are never negative.
\<close>

definition int_of_dbl :: "dbl \<Rightarrow> error + c_int" where
  "int_of_dbl d =
     (let t = dbl_trunc d
      in if t < 2 ^ 31 then Inr (word_of_nat t) else Inl double_to_int_out_of_range)"

definition auto_imageCacheSizeMB :: "size_t \<Rightarrow> error + c_int" where
  "auto_imageCacheSizeMB freeMemoryOnGPU =
     int_of_dbl (dbl_div_1024 (dbl_div_1024 (dbl_times (dbl_of_size_t freeMemoryOnGPU) dbl_0_66)))"

definition resolve_imageCacheSizeMB :: "c_int \<Rightarrow> size_t \<Rightarrow> error + c_int" where
  "resolve_imageCacheSizeMB imageCacheSizeMB freeMemoryOnGPU =
     (if imageCacheSizeMB = 0 then auto_imageCacheSizeMB freeMemoryOnGPU
      else Inr imageCacheSizeMB)"

subsection \<open>Lines 175-188: the image cache\<close>

text \<open>
  \<open>imageCacheSizeMB * 1024lu * 1024lu\<close>: the \<open>int\<close> is converted to \<open>unsigned long\<close>
  (sign extension) and multiplied in 64-bit unsigned arithmetic.
\<close>

definition cacheBytes :: "c_int \<Rightarrow> size_t" where
  "cacheBytes imageCacheSizeMB = scast imageCacheSizeMB * 1024 * 1024"

text \<open>
  \<^verbatim>\<open>
  int imageCacheSize = 0;
  if (images.size() * images[0].getSizeInMemory() <= imageCacheSizeMB * 1024lu * 1024lu) {
      imageCacheSize = images.size();
  } else {
      imageCacheSize = imageCacheSizeMB * 1024lu * 1024lu / images[0].getSizeInMemory();
  }
  \<close>
  \<open>images_size\<close> is \<open>images.size()\<close> and \<open>sizeInMemory\<close> is
  \<open>images[0].getSizeInMemory()\<close>, both \<open>size_t\<close>. The division is reached only with a
  non-zero divisor: with \<open>sizeInMemory = 0\<close> the product is 0 and the first branch is taken.
  The assignment to the \<open>int\<close> keeps the low 32 bits.
\<close>

definition imageCacheSize_of :: "size_t \<Rightarrow> size_t \<Rightarrow> c_int \<Rightarrow> c_int" where
  "imageCacheSize_of images_size sizeInMemory imageCacheSizeMB =
     (if images_size * sizeInMemory \<le> cacheBytes imageCacheSizeMB
      then ucast images_size
      else ucast (cacheBytes imageCacheSizeMB div sizeInMemory))"

text \<open>
  \<^verbatim>\<open>
  if (imageCacheSizeMB * 1024lu * 1024lu >= freeMemoryOnGPU) {
      throw std::runtime_error("image cache size too large");
  }
  \<close>
\<close>

definition check_cache :: "c_int \<Rightarrow> size_t \<Rightarrow> error + unit" where
  "check_cache imageCacheSizeMB freeMemoryOnGPU =
     (if cacheBytes imageCacheSizeMB \<ge> freeMemoryOnGPU
      then Inl (runtime_error ''image cache size too large'')
      else Inr ())"

subsection \<open>Lines 190-201: the batch size\<close>

text \<open>
  \<^verbatim>\<open>
  long remainingMemoryOnGPU = (freeMemoryOnGPU - imageCacheSizeMB * 1024lu * 1024lu) / 3;
  remainingMemoryOnGPU -= 10 * (2 * sizeof(WeightType) * featureCount * numThresholds);
  size_t sizePerSample = 2 * sizeof(FeatureResponseType) * featureCount;
  int maxSamplesPerBatch = remainingMemoryOnGPU / sizePerSample;
  maxSamplesPerBatch = std::min(maxSamplesPerBatch, 50000);
  if (maxSamplesPerBatch < 1000) {
      throw std::runtime_error("memory headroom on GPU too low. try to decrease image cache size manually");
  }
  \<close>
  \<open>WeightType\<close> and \<open>FeatureResponseType\<close> are declared in a header that is not part of
  this file; their sizes are parameters. The first line is unsigned 64-bit arithmetic whose
  result is stored in a \<open>long\<close>. In the second line the right operand is \<open>size_t\<close>, so the
  subtraction is done modulo \<open>2 ^ 64\<close> and stored back in the \<open>long\<close>. In the fourth line
  the \<open>long\<close> meets a \<open>size_t\<close>: by the usual arithmetic conversions it is converted to
  \<open>unsigned long\<close> and the division is unsigned; the quotient is then narrowed to
  \<open>int\<close> (its low 32 bits). \<open>std::min\<close> and the comparison with 1000 are on \<open>int\<close>,
  hence signed.
\<close>

definition remainingMemoryOnGPU_init :: "size_t \<Rightarrow> c_int \<Rightarrow> c_long" where
  "remainingMemoryOnGPU_init freeMemoryOnGPU imageCacheSizeMB =
     (freeMemoryOnGPU - cacheBytes imageCacheSizeMB) div 3"

definition histogramBytes :: "size_t \<Rightarrow> c_uint \<Rightarrow> uint16_t \<Rightarrow> size_t" where
  "histogramBytes sizeof_WeightType featureCount numThresholds =
     10 * (2 * sizeof_WeightType * ucast featureCount * ucast numThresholds)"

definition remainingMemoryOnGPU_of ::
  "size_t \<Rightarrow> c_int \<Rightarrow> size_t \<Rightarrow> c_uint \<Rightarrow> uint16_t \<Rightarrow> c_long" where
  "remainingMemoryOnGPU_of freeMemoryOnGPU imageCacheSizeMB sizeof_WeightType featureCount numThresholds =
     remainingMemoryOnGPU_init freeMemoryOnGPU imageCacheSizeMB
       - histogramBytes sizeof_WeightType featureCount numThresholds"

definition sizePerSample_of :: "size_t \<Rightarrow> c_uint \<Rightarrow> size_t" where
  "sizePerSample_of sizeof_FeatureResponseType featureCount =
     2 * sizeof_FeatureResponseType * ucast featureCount"

definition std_min :: "c_int \<Rightarrow> c_int \<Rightarrow> c_int" where
  "std_min a b = (if sint b < sint a then b else a)"

definition maxSamplesPerBatch_of ::
  "size_t \<Rightarrow> c_int \<Rightarrow> size_t \<Rightarrow> size_t \<Rightarrow> c_uint \<Rightarrow> uint16_t \<Rightarrow> error + c_int" where
  "maxSamplesPerBatch_of freeMemoryOnGPU imageCacheSizeMB sizeof_WeightType
       sizeof_FeatureResponseType featureCount numThresholds =
     (let remainingMemoryOnGPU =
            remainingMemoryOnGPU_of freeMemoryOnGPU imageCacheSizeMB sizeof_WeightType
              featureCount numThresholds;
          sizePerSample = sizePerSample_of sizeof_FeatureResponseType featureCount
      in if sizePerSample = 0 then Inl division_by_zero
         else
           let maxSamplesPerBatch = std_min (ucast (remainingMemoryOnGPU div sizePerSample)) 50000
           in if sint maxSamplesPerBatch < 1000
              then Inl (runtime_error
                ''memory headroom on GPU too low. try to decrease image cache size manually'')
              else Inr maxSamplesPerBatch)"

subsection \<open>Lines 44-141: the command line\<close>

text \<open>
  The parsing of \<open>argv\<close> is done by \<open>boost::program_options\<close>. The model starts from its
  result: for each option, whether it was supplied and with which value. An option declared
  with \<open>implicit_value(true)\<close> may be supplied without a value (\<open>bare\<close>).
\<close>

datatype 'a arg = absent | bare | given 'a

record cmdline =
  argc :: nat
  arg_help :: bool
  arg_version :: bool
  arg_folderTraining :: "string option"
  arg_trees :: "c_int option"
  arg_samplesPerImage :: "c_uint option"
  arg_featureCount :: "c_uint option"
  arg_minSampleCount :: "c_uint option"
  arg_maxDepth :: "c_int option"
  arg_boxRadius :: "uint16_t option"
  arg_regionSize :: "uint16_t option"
  arg_numThresholds :: "uint16_t option"
  arg_outputFolder :: "string option"
  arg_numThreads :: "c_int option"
  arg_useCIELab :: "bool arg"
  arg_useDepthFilling :: "bool arg"
  arg_deviceId :: "c_int list"
  arg_subsamplingType :: "string option"
  arg_maxImages :: "c_int option"
  arg_imageCacheSize :: "c_int option"
  arg_mode :: "string option"
  arg_profile :: "bool arg"
  arg_randomSeed :: "c_int option"
  arg_ignoreColor :: "string list"
  arg_verboseTree :: "bool arg"
  arg_trainTreesInParallel :: "bool arg"

text \<open>The local variables of \<open>main\<close> that the options are bound to (lines 46-68).\<close>

record options =
  folderTraining :: string
  outputFolder :: string
  trees :: c_int
  samplesPerImage :: c_uint
  featureCount :: c_uint
  minSampleCount :: c_uint
  maxDepth :: c_int
  boxRadius :: uint16_t
  regionSize :: uint16_t
  numThresholds :: uint16_t
  modeString :: string
  numThreads :: c_int
  subsamplingType :: string
  profiling :: bool
  useCIELab :: bool
  useDepthFilling :: bool
  deviceIds :: "c_int list"
  maxImages :: c_int
  randomSeed :: c_int
  ignoredColors :: "string list"
  trainTreesInParallel :: bool
  verboseTree :: bool
  imageCacheSizeMB :: c_int

text \<open>
  \<open>default_value(d)\<close> gives an option that was not supplied the value \<open>d\<close>;
  \<open>implicit_value(true)\<close> gives an option supplied without a value the value \<open>true\<close>.
\<close>

definition with_default :: "'a \<Rightarrow> 'a option \<Rightarrow> 'a" where
  "with_default d a = (case a of None \<Rightarrow> d | Some v \<Rightarrow> v)"

definition flag_value :: "bool \<Rightarrow> bool arg \<Rightarrow> bool" where
  "flag_value d a = (case a of absent \<Rightarrow> d | bare \<Rightarrow> True | given v \<Rightarrow> v)"

text \<open>
  \<open>po::notify(vm)\<close> stores the values into the variables and throws when a
  \<open>required()\<close> option is missing; \<open>None\<close> is that exception. The defaults are the
  initial values of the variables at lines 60-68 and the literals of lines 84-108;
  \<open>default_num_threads\<close> is \<open>tbb::task_scheduler_init::default_num_threads()\<close>.
\<close>

definition notify :: "c_int \<Rightarrow> cmdline \<Rightarrow> options option" where
  "notify default_num_threads vm =
     (case (arg_folderTraining vm, arg_trees vm, arg_samplesPerImage vm, arg_featureCount vm,
            arg_minSampleCount vm, arg_maxDepth vm, arg_boxRadius vm, arg_regionSize vm,
            arg_numThresholds vm) of
        (Some ft, Some tr, Some spi, Some fc, Some msc, Some md, Some br, Some rs, Some nt) \<Rightarrow>
          Some \<lparr> folderTraining = ft,
                 outputFolder = with_default [] (arg_outputFolder vm),
                 trees = tr,
                 samplesPerImage = spi,
                 featureCount = fc,
                 minSampleCount = msc,
                 maxDepth = md,
                 boxRadius = br,
                 regionSize = rs,
                 numThresholds = nt,
                 modeString = with_default ''gpu'' (arg_mode vm),
                 numThreads = with_default default_num_threads (arg_numThreads vm),
                 subsamplingType = with_default ''classUniform'' (arg_subsamplingType vm),
                 profiling = flag_value False (arg_profile vm),
                 useCIELab = flag_value True (arg_useCIELab vm),
                 useDepthFilling = flag_value False (arg_useDepthFilling vm),
                 deviceIds = arg_deviceId vm,
                 maxImages = with_default 0 (arg_maxImages vm),
                 randomSeed = with_default 4711 (arg_randomSeed vm),
                 ignoredColors = arg_ignoreColor vm,
                 trainTreesInParallel = flag_value True (arg_trainTreesInParallel vm),
                 verboseTree = flag_value False (arg_verboseTree vm),
                 imageCacheSizeMB = with_default 0 (arg_imageCacheSize vm) \<rparr>
      | _ \<Rightarrow> None)"

subsection \<open>Lines 205-208: the training configuration\<close>

datatype AccelerationMode = GPU_ONLY | CPU_ONLY | GPU_AND_CPU_COMPARE

text \<open>
  Modelled from the spec: \<open>TrainingConfiguration::parseAccelerationModeString\<close> is defined
  outside this file. The specification has it accept exactly the strings \<open>gpu\<close>, \<open>cpu\<close>
  and \<open>compare\<close> and fail on every other string, reporting the offending value.
\<close>

definition parseAccelerationModeString :: "string \<Rightarrow> error + AccelerationMode" where
  "parseAccelerationModeString s =
     (if s = ''gpu'' then Inr GPU_ONLY
      else if s = ''cpu'' then Inr CPU_ONLY
      else if s = ''compare'' then Inr GPU_AND_CPU_COMPARE
      else Inl (runtime_error (''illegal acceleration mode: '' @ s)))"

text \<open>
  The class \<open>TrainingConfiguration\<close> is declared outside this file; the model is the
  record of the eighteen constructor arguments, in the order of the call.
\<close>

record TrainingConfiguration =
  conf_randomSeed :: c_int
  conf_samplesPerImage :: c_uint
  conf_featureCount :: c_uint
  conf_minSampleCount :: c_uint
  conf_maxDepth :: c_int
  conf_boxRadius :: uint16_t
  conf_regionSize :: uint16_t
  conf_numThresholds :: uint16_t
  conf_numThreads :: c_int
  conf_maxImages :: c_int
  conf_imageCacheSize :: c_int
  conf_maxSamplesPerBatch :: c_int
  conf_accelerationMode :: AccelerationMode
  conf_useCIELab :: bool
  conf_useDepthFilling :: bool
  conf_deviceIds :: "c_int list"
  conf_subsamplingType :: string
  conf_ignoredColors :: "string list"

subsection \<open>The collaborators\<close>

text \<open>
  What \<open>main\<close> obtains from code outside this file: the free memory of a device, the
  images of a folder (the model keeps of each image its \<open>getSizeInMemory()\<close>), the two
  element sizes, and the default number of threads.
\<close>

record env =
  getFreeMemoryOnGPU :: "c_int \<Rightarrow> size_t"
  loadImages :: "string \<Rightarrow> bool \<Rightarrow> bool \<Rightarrow> size_t list"
  sizeof_WeightType :: size_t
  sizeof_FeatureResponseType :: size_t
  default_num_threads :: c_int

subsection \<open>Lines 17-42: the call of the trainer\<close>

text \<open>
  The calls that \<open>main\<close> makes to the trainer and to the exporter are recorded as events,
  in the order in which they happen. \<open>RandomForest_train trees configuration b\<close> is the call
  \<open>randomForest.train(trainLabelImages, b)\<close> on the ensemble constructed from \<open>trees\<close> and
  \<open>configuration\<close>; its last argument is the sequential flag of the trainer.
\<close>

datatype event =
    RandomForest_train size_t TrainingConfiguration bool
  | WriteJSON string
  | Warning_no_output_folder

definition train :: "size_t \<Rightarrow> TrainingConfiguration \<Rightarrow> bool \<Rightarrow> event list" where
  "train trees' configuration trainTreesInParallel' =
     [RandomForest_train trees' configuration (\<not> trainTreesInParallel')]"

subsection \<open>Lines 143-208: from the probe to the configuration\<close>

definition main_plan :: "env \<Rightarrow> options \<Rightarrow> error + TrainingConfiguration" where
  "main_plan E opts =
     (let deviceIds' = default_deviceIds (deviceIds opts);
          freeMemoryOnGPU = probe_freeMemoryOnGPU (getFreeMemoryOnGPU E) deviceIds'
      in case resolve_imageCacheSizeMB (imageCacheSizeMB opts) freeMemoryOnGPU of
           Inl e \<Rightarrow> Inl e
         | Inr imageCacheSizeMB' \<Rightarrow>
             let images = loadImages E (folderTraining opts) (useCIELab opts) (useDepthFilling opts)
             in if images = []
                then Inl (runtime_error (''found no files in '' @ folderTraining opts))
                else
                  let imageCacheSize =
                        imageCacheSize_of (word_of_nat (length images)) (hd images) imageCacheSizeMB'
                  in case check_cache imageCacheSizeMB' freeMemoryOnGPU of
                       Inl e \<Rightarrow> Inl e
                     | Inr _ \<Rightarrow>
                         (case maxSamplesPerBatch_of freeMemoryOnGPU imageCacheSizeMB'
                                 (sizeof_WeightType E) (sizeof_FeatureResponseType E)
                                 (featureCount opts) (numThresholds opts) of
                            Inl e \<Rightarrow> Inl e
                          | Inr maxSamplesPerBatch \<Rightarrow>
                              (case parseAccelerationModeString (modeString opts) of
                                 Inl e \<Rightarrow> Inl e
                               | Inr mode \<Rightarrow>
                                   Inr \<lparr> conf_randomSeed = randomSeed opts,
                                         conf_samplesPerImage = samplesPerImage opts,
                                         conf_featureCount = featureCount opts,
                                         conf_minSampleCount = minSampleCount opts,
                                         conf_maxDepth = maxDepth opts,
                                         conf_boxRadius = boxRadius opts,
                                         conf_regionSize = regionSize opts,
                                         conf_numThresholds = numThresholds opts,
                                         conf_numThreads = numThreads opts,
                                         conf_maxImages = maxImages opts,
                                         conf_imageCacheSize = imageCacheSize,
                                         conf_maxSamplesPerBatch = maxSamplesPerBatch,
                                         conf_accelerationMode = mode,
                                         conf_useCIELab = useCIELab opts,
                                         conf_useDepthFilling = useDepthFilling opts,
                                         conf_deviceIds = deviceIds',
                                         conf_subsamplingType = subsamplingType opts,
                                         conf_ignoredColors = ignoredColors opts \<rparr>)))"

subsection \<open>Lines 44-221: the program\<close>

text \<open>
  A run ends with an exit status, or is terminated by an exception that nothing catches.
  \<open>main\<close> returns the events of the run and how it ended.
\<close>

datatype ending = EXIT_SUCCESS | EXIT_FAILURE | Uncaught error

definition main :: "env \<Rightarrow> cmdline \<Rightarrow> event list \<times> ending" where
  "main E vm =
     (if argc vm \<le> 1 \<or> arg_help vm then ([], EXIT_FAILURE)
      else if argc vm \<le> 1 \<or> arg_version vm then ([], EXIT_FAILURE)
      else case notify (default_num_threads E) vm of
             None \<Rightarrow> ([], EXIT_FAILURE)
           | Some opts \<Rightarrow>
               (case main_plan E opts of
                  Inl e \<Rightarrow> ([], Uncaught e)
                | Inr configuration \<Rightarrow>
                    (train (scast (trees opts)) configuration (trainTreesInParallel opts)
                       @ (if outputFolder opts \<noteq> [] then [WriteJSON (outputFolder opts)]
                          else [Warning_no_output_folder]),
                     EXIT_SUCCESS)))"

subsection \<open>The batch size as the specification words it\<close>

text \<open>
  Section 4.3 of the specification gives the batch size as arithmetic on integers:
  \<open>remaining = (totalFreeBytes - cacheBytes) / 3\<close>, then
  \<open>remaining -= 10 * (2 * weightSize * featureCount * numThresholds)\<close>, then
  \<open>bytesPerSample = 2 * featureResponseSize * featureCount\<close>, then
  \<open>maxSamplesPerBatch = remaining / bytesPerSample\<close> clamped to at most 50000, and a
  failure when the result is below 1000. These definitions follow those words on unbounded
  integers; they are what the functions of the source are compared with. (Where the
  numerator is negative the quotient is at most 0 whichever way the division rounds.)
\<close>

definition spec_remaining :: "int \<Rightarrow> int \<Rightarrow> int \<Rightarrow> int \<Rightarrow> int \<Rightarrow> int" where
  "spec_remaining totalFreeBytes cacheBytes' weightSize fc nt =
     (totalFreeBytes - cacheBytes') div 3 - 10 * (2 * weightSize * fc * nt)"

definition spec_maxSamplesPerBatch :: "int \<Rightarrow> int \<Rightarrow> int \<Rightarrow> int \<Rightarrow> int \<Rightarrow> int \<Rightarrow> int" where
  "spec_maxSamplesPerBatch totalFreeBytes cacheBytes' weightSize responseSize fc nt =
     min 50000
       (spec_remaining totalFreeBytes cacheBytes' weightSize fc nt div (2 * responseSize * fc))"

definition spec_BatchSizePlanner :: "int \<Rightarrow> int \<Rightarrow> int \<Rightarrow> int \<Rightarrow> int \<Rightarrow> int \<Rightarrow> string + int" where
  "spec_BatchSizePlanner totalFreeBytes cacheBytes' weightSize responseSize fc nt =
     (let m = spec_maxSamplesPerBatch totalFreeBytes cacheBytes' weightSize responseSize fc nt
      in if m < 1000 then Inl ''memory headroom too low'' else Inr m)"

subsection \<open>A concrete run\<close>

text \<open>
  The end-to-end scenario of the specification: one device with 4,000,000,000 free bytes,
  a hundred images of 1,000,000 bytes each, element sizes of 4 bytes, 1000 features and
  20 thresholds, every optional argument left out.
\<close>

definition scenario_env :: env where
  "scenario_env =
     \<lparr> getFreeMemoryOnGPU = (\<lambda>d. 4000000000),
       loadImages = (\<lambda>folder cielab filling. replicate 100 1000000),
       sizeof_WeightType = 4,
       sizeof_FeatureResponseType = 4,
       default_num_threads = 8 \<rparr>"

definition scenario_cmdline :: cmdline where
  "scenario_cmdline =
     \<lparr> argc = 10, arg_help = False, arg_version = False,
       arg_folderTraining = Some ''training'',
       arg_trees = Some 3,
       arg_samplesPerImage = Some 2000,
       arg_featureCount = Some 1000,
       arg_minSampleCount = Some 10,
       arg_maxDepth = Some 14,
       arg_boxRadius = Some 111,
       arg_regionSize = Some 3,
       arg_numThresholds = Some 20,
       arg_outputFolder = None,
       arg_numThreads = None,
       arg_useCIELab = absent,
       arg_useDepthFilling = absent,
       arg_deviceId = [],
       arg_subsamplingType = None,
       arg_maxImages = None,
       arg_imageCacheSize = None,
       arg_mode = None,
       arg_profile = absent,
       arg_randomSeed = None,
       arg_ignoreColor = [],
       arg_verboseTree = absent,
       arg_trainTreesInParallel = absent \<rparr>"

text \<open>The variables of \<open>main\<close> after \<open>po::notify\<close> on that command line.\<close>

definition scenario_options :: options where
  "scenario_options =
     \<lparr> folderTraining = ''training'',
       outputFolder = [],
       trees = 3,
       samplesPerImage = 2000,
       featureCount = 1000,
       minSampleCount = 10,
       maxDepth = 14,
       boxRadius = 111,
       regionSize = 3,
       numThresholds = 20,
       modeString = ''gpu'',
       numThreads = 8,
       subsamplingType = ''classUniform'',
       profiling = False,
       useCIELab = True,
       useDepthFilling = False,
       deviceIds = [],
       maxImages = 0,
       randomSeed = 4711,
       ignoredColors = [],
       trainTreesInParallel = True,
       verboseTree = False,
       imageCacheSizeMB = 0 \<rparr>"

text \<open>The configuration that this run hands to the trainer.\<close>

definition scenario_configuration :: TrainingConfiguration where
  "scenario_configuration =
     \<lparr> conf_randomSeed = 4711,
       conf_samplesPerImage = 2000,
       conf_featureCount = 1000,
       conf_minSampleCount = 10,
       conf_maxDepth = 14,
       conf_boxRadius = 111,
       conf_regionSize = 3,
       conf_numThresholds = 20,
       conf_numThreads = 8,
       conf_maxImages = 0,
       conf_imageCacheSize = 100,
       conf_maxSamplesPerBatch = 50000,
       conf_accelerationMode = GPU_ONLY,
       conf_useCIELab = True,
       conf_useDepthFilling = False,
       conf_deviceIds = [0],
       conf_subsamplingType = ''classUniform'',
       conf_ignoredColors = [] \<rparr>"

text \<open>
  The same run with an image cache of 4000 MB requested: 4,194,304,000 bytes, more than
  the device has free.
\<close>

definition oversized_cmdline :: cmdline where
  "oversized_cmdline = scenario_cmdline \<lparr> arg_imageCacheSize := Some 4000 \<rparr>"

definition oversized_options :: options where
  "oversized_options = scenario_options \<lparr> imageCacheSizeMB := 4000 \<rparr>"

section \<open>Properties\<close>

lemmas batch_defs =
  maxSamplesPerBatch_of_def remainingMemoryOnGPU_of_def remainingMemoryOnGPU_init_def
  histogramBytes_def sizePerSample_of_def cacheBytes_def std_min_def

lemmas dbl_defs =
  auto_imageCacheSizeMB_def int_of_dbl_def dbl_trunc_def dbl_div_1024_def dbl_times_def
  dbl_of_size_t_def dbl_0_66_def dbl_round_def round_half_even_def

subsection \<open>The device probe\<close>

lemma Min_insert_insert:
  fixes a b :: "'a::linorder"
  assumes "finite S"
  shows "Min (insert a (insert b S)) = Min (insert (min a b) S)"
proof (cases "S = {}")
  case True
  then show ?thesis by simp
next
  case False
  then show ?thesis using assms by (simp add: min.assoc)
qed

lemma probe_loop_nonzero:
  assumes "\<forall>d \<in> set ds. g d \<noteq> 0" and "acc \<noteq> 0"
  shows "probe_loop g acc ds = Min (insert acc (g ` set ds))"
  using assms
proof (induction ds arbitrary: acc)
  case Nil
  then show ?case by simp
next
  case (Cons d ds)
  have step: "(if acc = 0 \<or> g d < acc then g d else acc) = min acc (g d)"
    using Cons.prems by (auto simp: min_def)
  have nz: "min acc (g d) \<noteq> 0"
    using Cons.prems by (auto simp: min_def)
  have "probe_loop g acc (d # ds) = probe_loop g (min acc (g d)) ds"
    by (simp add: Let_def step)
  also have "\<dots> = Min (insert (min acc (g d)) (g ` set ds))"
    using Cons.IH [OF _ nz] Cons.prems by simp
  also have "\<dots> = Min (insert acc (insert (g d) (g ` set ds)))"
    by (rule Min_insert_insert [symmetric]) simp
  finally show ?case by simp
qed

text \<open>
  When no device reports zero free bytes the probe returns the minimum of the readings.
\<close>

lemma probe_minimum_of_nonzero_readings:
  assumes "ds \<noteq> []" and "\<forall>d \<in> set ds. g d \<noteq> 0"
  shows "probe_freeMemoryOnGPU g ds = Min (g ` set ds)"
proof (cases ds)
  case Nil
  then show ?thesis using assms by simp
next
  case (Cons d ds')
  have "probe_freeMemoryOnGPU g ds = probe_loop g (g d) ds'"
    by (simp add: probe_freeMemoryOnGPU_def Cons)
  also have "\<dots> = Min (insert (g d) (g ` set ds'))"
    using assms Cons by (intro probe_loop_nonzero) auto
  finally show ?thesis by (simp add: Cons)
qed

text \<open>
  Claim C2: for every non-empty list of device identifiers the probe returns the minimum of
  the per-device free-memory readings, readings of zero included. The program does not do
  that: the loop uses the value 0 of \<open>freeMemoryOnGPU\<close> for "no reading yet", so a
  reading of 0 is overwritten by the next reading. With two devices that report 0 and
  4,000,000,000 free bytes the probe returns 4,000,000,000, while the minimum of the
  readings is 0.
\<close>

theorem C2_probe_forgets_zero_reading:
  "probe_freeMemoryOnGPU (\<lambda>d. if d = 0 then 0 else 4000000000) [0, 1] = 4000000000
   \<and> Min (set (map (\<lambda>d. if d = 0 then 0 else 4000000000 :: size_t) [0, 1 :: c_int])) = 0"
  by (simp add: probe_freeMemoryOnGPU_def)

subsection \<open>The batch size\<close>

text \<open>
  Whatever the inputs, a batch size that the program accepts lies between 1000 and 50000.
\<close>

lemma maxSamplesPerBatch_of_range:
  assumes "maxSamplesPerBatch_of free mb ws rs fc nt = Inr v"
  shows "1000 \<le> sint v \<and> sint v \<le> 50000"
  using assms
  by (auto simp: maxSamplesPerBatch_of_def std_min_def Let_def split: if_splits)

lemma uint_mult_bounded:
  fixes a b :: size_t
  assumes "uint a \<le> A" and "uint b \<le> B" and "A * B < 2 ^ 64"
  shows "uint (a * b) = uint a * uint b" and "uint (a * b) \<le> A * B"
proof -
  have A0: "0 \<le> A" using uint_ge_0 [of a] assms(1) by (rule order_trans)
  have le: "uint a * uint b \<le> A * B"
    using assms(1,2) A0 by (intro mult_mono) simp_all
  then have "uint a * uint b < 2 ^ 64" using assms(3) by (rule le_less_trans)
  then have "uint a * uint b < 2 ^ LENGTH(64)" by simp
  then show e: "uint (a * b) = uint a * uint b" by (simp only: uint_mult_lem)
  show "uint (a * b) \<le> A * B" unfolding e by (rule le)
qed

lemma uint_ucast_uint: "uint (ucast (fc :: c_uint) :: size_t) = uint fc"
  by (rule uint_up_ucast) (simp add: is_up)

lemma uint_ucast_uint16: "uint (ucast (nt :: uint16_t) :: size_t) = uint nt"
  by (rule uint_up_ucast) (simp add: is_up)

lemma uint_histogramBytes:
  assumes "uint ws < 1024"
  shows "uint (histogramBytes ws fc nt) = 10 * (2 * uint ws * uint fc * uint nt)"
proof -
  have fc: "uint (ucast fc :: size_t) \<le> 4294967295"
    unfolding uint_ucast_uint using uint_lt2p [of fc] by simp
  have nt: "uint (ucast nt :: size_t) \<le> 65535"
    unfolding uint_ucast_uint16 using uint_lt2p [of nt] by simp
  have ws: "uint ws \<le> 1023" using assms by simp
  have two: "uint (2 :: size_t) \<le> 2" by simp
  have ten: "uint (10 :: size_t) \<le> 10" by simp
  note p1 = uint_mult_bounded [OF two ws]
  have e1: "uint (2 * ws) = 2 * uint ws" and b1: "uint (2 * ws) \<le> 2 * 1023"
    using p1 by simp_all
  note p2 = uint_mult_bounded [OF b1 fc]
  have e2: "uint (2 * ws * ucast fc) = 2 * uint ws * uint fc"
    and b2: "uint (2 * ws * ucast fc) \<le> 2 * 1023 * 4294967295"
    using p2 by (simp_all add: e1 uint_ucast_uint)
  note p3 = uint_mult_bounded [OF b2 nt]
  have e3: "uint (2 * ws * ucast fc * ucast nt) = 2 * uint ws * uint fc * uint nt"
    and b3: "uint (2 * ws * ucast fc * ucast nt) \<le> 2 * 1023 * 4294967295 * 65535"
    using p3 by (simp_all add: e2 uint_ucast_uint16)
  note p4 = uint_mult_bounded [OF ten b3]
  have "uint (10 * (2 * ws * ucast fc * ucast nt)) = 10 * (2 * uint ws * uint fc * uint nt)"
    using p4 by (simp add: e3)
  then show ?thesis by (simp only: histogramBytes_def)
qed

lemma uint_sizePerSample:
  assumes "uint rs < 1024"
  shows "uint (sizePerSample_of rs fc) = 2 * uint rs * uint fc"
proof -
  have fc: "uint (ucast fc :: size_t) \<le> 4294967295"
    unfolding uint_ucast_uint using uint_lt2p [of fc] by simp
  have rs: "uint rs \<le> 1023" using assms by simp
  have two: "uint (2 :: size_t) \<le> 2" by simp
  note p1 = uint_mult_bounded [OF two rs]
  have e1: "uint (2 * rs) = 2 * uint rs" and b1: "uint (2 * rs) \<le> 2 * 1023"
    using p1 by simp_all
  note p2 = uint_mult_bounded [OF b1 fc]
  have "uint (2 * rs * ucast fc) = 2 * uint rs * uint fc"
    using p2 by (simp add: e1 uint_ucast_uint)
  then show ?thesis by (simp only: sizePerSample_of_def)
qed

lemma uint_remainingMemoryOnGPU:
  assumes ws: "uint ws < 1024"
    and cache: "cacheBytes mb \<le> free"
    and room: "10 * (2 * uint ws * uint fc * uint nt) \<le> (uint free - uint (cacheBytes mb)) div 3"
  shows "uint (remainingMemoryOnGPU_of free mb ws fc nt)
           = spec_remaining (uint free) (uint (cacheBytes mb)) (uint ws) (uint fc) (uint nt)"
proof -
  have "uint (cacheBytes mb) \<le> uint free" using cache by (simp only: word_le_def)
  then have d: "uint (free - cacheBytes mb) = uint free - uint (cacheBytes mb)"
    by (simp only: uint_sub_lem)
  have three: "uint (3 :: size_t) = 3" by simp
  have i: "uint (remainingMemoryOnGPU_init free mb) = (uint free - uint (cacheBytes mb)) div 3"
    unfolding remainingMemoryOnGPU_init_def uint_div d three ..
  have "uint (histogramBytes ws fc nt) \<le> uint (remainingMemoryOnGPU_init free mb)"
    unfolding i uint_histogramBytes [OF ws] by (rule room)
  then have "uint (remainingMemoryOnGPU_init free mb - histogramBytes ws fc nt)
      = uint (remainingMemoryOnGPU_init free mb) - uint (histogramBytes ws fc nt)"
    by (simp only: uint_sub_lem)
  then show ?thesis
    unfolding remainingMemoryOnGPU_of_def spec_remaining_def i uint_histogramBytes [OF ws] .
qed

lemma sint_ucast_small_uint:
  fixes w :: size_t
  assumes "uint w < 2 ^ 31"
  shows "sint (ucast w :: c_int) = uint w"
proof -
  have "sint (ucast w :: c_int) = signed_take_bit (31::nat) (uint w)"
    unfolding signed_ucast_eq by simp
  also have "\<dots> = uint w"
  proof (rule signed_take_bit_int_eq_self)
    have "- (2 ^ 31 :: int) \<le> 0" by simp
    also have "0 \<le> uint w" by simp
    finally show "- (2 ^ 31) \<le> uint w" .
    show "uint w < 2 ^ 31" by (rule assms)
  qed
  finally show ?thesis .
qed

lemma sint_std_min_50000: "sint (std_min a 50000) = min 50000 (sint a)"
  by (simp add: std_min_def min_def)

text \<open>
  Where nothing wraps, the program computes the formula of the specification: the element
  sizes are below 1024 bytes and positive, there is at least one feature, the cache budget
  does not exceed the free memory, the histogram reservation does not exceed the third of
  what the cache leaves, and the quotient fits an \<open>int\<close>. Then the program fails exactly
  when the formula is below 1000 and otherwise returns the value of the formula.
\<close>

lemma maxSamplesPerBatch_of_agrees_with_formula:
  assumes ws: "uint ws < 1024" and rs: "uint rs < 1024"
    and pos: "0 < uint rs" "0 < uint fc"
    and cache: "cacheBytes mb \<le> free"
    and room: "10 * (2 * uint ws * uint fc * uint nt) \<le> (uint free - uint (cacheBytes mb)) div 3"
    and fits: "spec_remaining (uint free) (uint (cacheBytes mb)) (uint ws) (uint fc) (uint nt)
                 div (2 * uint rs * uint fc) < 2 ^ 31"
  shows "case maxSamplesPerBatch_of free mb ws rs fc nt of
           Inl e \<Rightarrow> e = runtime_error
               ''memory headroom on GPU too low. try to decrease image cache size manually''
             \<and> spec_maxSamplesPerBatch (uint free) (uint (cacheBytes mb)) (uint ws) (uint rs)
                  (uint fc) (uint nt) < 1000
         | Inr v \<Rightarrow> sint v = spec_maxSamplesPerBatch (uint free) (uint (cacheBytes mb)) (uint ws)
                  (uint rs) (uint fc) (uint nt)"
proof -
  define rem where "rem = remainingMemoryOnGPU_of free mb ws fc nt"
  define sps where "sps = sizePerSample_of rs fc"
  define Q where "Q = spec_remaining (uint free) (uint (cacheBytes mb)) (uint ws) (uint fc) (uint nt)
                 div (2 * uint rs * uint fc)"
  have r: "uint rem = spec_remaining (uint free) (uint (cacheBytes mb)) (uint ws) (uint fc) (uint nt)"
    unfolding rem_def by (rule uint_remainingMemoryOnGPU [OF ws cache room])
  have s: "uint sps = 2 * uint rs * uint fc"
    unfolding sps_def by (rule uint_sizePerSample [OF rs])
  have "0 < uint rs * uint fc" using pos by (rule mult_pos_pos)
  then have "0 < uint sps" unfolding s by simp
  then have "uint sps \<noteq> 0" by simp
  then have sps0: "sps \<noteq> 0" by (simp only: uint_0_iff not_False_eq_True)
  have q: "uint (rem div sps) = Q" unfolding uint_div r s Q_def ..
  have "uint (rem div sps) < 2 ^ 31" unfolding q Q_def by (rule fits)
  then have "sint (ucast (rem div sps) :: c_int) = uint (rem div sps)"
    by (rule sint_ucast_small_uint)
  then have a: "sint (ucast (rem div sps) :: c_int) = Q" unfolding q .
  have m: "sint (std_min (ucast (rem div sps)) 50000) = min 50000 Q"
    unfolding sint_std_min_50000 a ..
  have spec: "spec_maxSamplesPerBatch (uint free) (uint (cacheBytes mb)) (uint ws) (uint rs)
                  (uint fc) (uint nt) = min 50000 Q"
    unfolding spec_maxSamplesPerBatch_def Q_def ..
  have code: "maxSamplesPerBatch_of free mb ws rs fc nt =
      (if sint (std_min (ucast (rem div sps)) 50000) < 1000
       then Inl (runtime_error
          ''memory headroom on GPU too low. try to decrease image cache size manually'')
       else Inr (std_min (ucast (rem div sps)) 50000))"
    using sps0 unfolding rem_def sps_def by (simp add: maxSamplesPerBatch_of_def Let_def)
  show ?thesis unfolding code spec m [symmetric] by simp
qed


text \<open>
  The formula of the specification does not increase with the number of features or of
  thresholds, as long as the remaining memory is not negative.
\<close>

lemma spec_remaining_antimono:
  assumes "0 \<le> w" and "0 \<le> fc" and "fc \<le> fc'" and "0 \<le> nt" and "nt \<le> nt'"
  shows "spec_remaining F C w fc' nt' \<le> spec_remaining F C w fc nt"
proof -
  have "fc * nt \<le> fc' * nt'" using assms by (intro mult_mono) simp_all
  then have "w * (fc * nt) \<le> w * (fc' * nt')" using assms(1) by (rule mult_left_mono)
  then show ?thesis by (simp add: spec_remaining_def mult.assoc)
qed

lemma spec_maxSamplesPerBatch_antimono:
  assumes "0 \<le> w" and "0 < r" and "0 < fc" and "fc \<le> fc'" and "0 \<le> nt" and "nt \<le> nt'"
    and "0 \<le> spec_remaining F C w fc' nt'"
  shows "spec_maxSamplesPerBatch F C w r fc' nt' \<le> spec_maxSamplesPerBatch F C w r fc nt"
proof -
  have d: "0 < 2 * r * fc" using assms(2,3) by simp
  have dd: "2 * r * fc \<le> 2 * r * fc'" using assms(2,4) by simp
  have "spec_remaining F C w fc' nt' div (2 * r * fc')
          \<le> spec_remaining F C w fc' nt' div (2 * r * fc)"
    using assms(7) d dd by (rule zdiv_mono2)
  also have "\<dots> \<le> spec_remaining F C w fc nt div (2 * r * fc)"
    using spec_remaining_antimono [of w fc fc' nt nt' F C] assms d by (intro zdiv_mono1) simp_all
  finally show ?thesis by (simp add: spec_maxSamplesPerBatch_def)
qed

text \<open>
  Claim C1: for every combination of its inputs the batch planner computes
  \<open>min(50000, ((totalFreeBytes - cacheBytes) / 3 - 10 * (2 * weightSize * featureCount *
  numThresholds)) / (2 * responseSize * featureCount))\<close>. The program does not: when the
  histogram reservation exceeds the third of the memory left after the cache, the
  \<open>long remainingMemoryOnGPU\<close> is negative, and the division by the \<open>size_t sizePerSample\<close>
  converts it to a huge unsigned number. With 4,000,000,000 free bytes, a cache of
  3000 MB, element sizes of 4, 178000 features and 20 thresholds the remaining memory of
  the formula is -42667 bytes and its batch size is -1, but the program computes 50000.
\<close>

theorem C1_batch_size_differs_from_formula:
  "maxSamplesPerBatch_of 4000000000 3000 4 4 178000 20 = Inr 50000
   \<and> uint (cacheBytes 3000) = 3000 * 2 ^ 20
   \<and> spec_remaining 4000000000 (3000 * 2 ^ 20) 4 178000 20 = - 42667
   \<and> spec_maxSamplesPerBatch 4000000000 (3000 * 2 ^ 20) 4 4 178000 20 = - 1"
  by (simp add: batch_defs spec_remaining_def spec_maxSamplesPerBatch_def)

text \<open>
  Claim C3: whenever the computed batch size is below 1000 the planner fails with
  "memory headroom too low", also when the remaining memory minus the histogram reservation
  is negative. The program does not fail there: with 4,000,000,000 free bytes, the
  automatic cache of 2517 MB, element sizes of 4, 200000 features and 100 thresholds the
  reservation is 1,600,000,000 bytes against 453,578,069 remaining, the batch size of the
  specification is negative and its planner fails, but the program accepts a batch of
  50000 samples.
\<close>

theorem C3_negative_headroom_accepted:
  "auto_imageCacheSizeMB 4000000000 = Inr 2517
   \<and> maxSamplesPerBatch_of 4000000000 2517 4 4 200000 100 = Inr 50000
   \<and> spec_remaining 4000000000 (2517 * 2 ^ 20) 4 200000 100 = - 1146421931
   \<and> spec_BatchSizePlanner 4000000000 (2517 * 2 ^ 20) 4 4 200000 100
       = Inl ''memory headroom too low''"
  by (simp add: batch_defs dbl_defs bitlen_nat.simps
        spec_remaining_def spec_maxSamplesPerBatch_def spec_BatchSizePlanner_def)

text \<open>
  Claim C7: with the other inputs fixed, the batch size does not increase when
  \<open>featureCount\<close> increases, nor when \<open>numThresholds\<close> increases. The program breaks both:
  with 4,000,000,000 free bytes, a cache of 3000 MB and 20 thresholds, 20000 features give
  a batch of 1579 and 200000 features give 50000; with a cache of 2517 MB and 5000
  features, 1000 thresholds give a batch of 1339 and 1200 thresholds give 50000. In both
  second runs the remaining memory is negative and is divided as an unsigned number.
\<close>

theorem C7_batch_size_not_monotone:
  "maxSamplesPerBatch_of 4000000000 3000 4 4 20000 20 = Inr 1579
   \<and> maxSamplesPerBatch_of 4000000000 3000 4 4 200000 20 = Inr 50000
   \<and> maxSamplesPerBatch_of 4000000000 2517 4 4 5000 1000 = Inr 1339
   \<and> maxSamplesPerBatch_of 4000000000 2517 4 4 5000 1200 = Inr 50000"
  by (simp add: batch_defs)

subsection \<open>Words and integers\<close>

lemma uint_mega:
  fixes k :: int
  assumes "0 \<le> k" and "k < 2 ^ 31"
  shows "uint ((word_of_int k :: size_t) * 1024 * 1024) = k * 2 ^ 20"
proof -
  have "(word_of_int k :: size_t) * 1024 * 1024 = word_of_int (k * 1048576)"
    by simp
  then have "uint ((word_of_int k :: size_t) * 1024 * 1024) = (k * 1048576) mod 2 ^ 64"
    by (simp only: uint_word_of_int) simp
  also have "\<dots> = k * 1048576"
    using assms by (intro mod_pos_pos_trivial) auto
  finally show ?thesis by simp
qed

lemma cacheBytes_nonneg:
  assumes "0 \<le> sint mb"
  shows "uint (cacheBytes mb) = sint mb * 2 ^ 20"
proof -
  have lt: "sint mb < 2 ^ 31" using sint_lt [of mb] by simp
  show ?thesis
    unfolding cacheBytes_def scast_eq by (rule uint_mega [OF assms lt])
qed

lemma sint_ucast_small:
  fixes w :: size_t
  assumes "unat w < 2 ^ 31"
  shows "sint (ucast w :: c_int) = int (unat w)"
proof -
  have u: "uint w = int (unat w)" by (rule uint_nat)
  have "int (unat w) < int (2 ^ 31)" using assms by (simp only: of_nat_less_iff)
  then have lt: "uint w < 2 ^ 31" unfolding u [symmetric] by simp
  have "sint (ucast w :: c_int) = signed_take_bit (31::nat) (uint w)"
    unfolding signed_ucast_eq by simp
  also have "\<dots> = uint w"
  proof (rule signed_take_bit_int_eq_self)
    have "- (2 ^ 31 :: int) \<le> 0" by simp
    also have "0 \<le> uint w" by simp
    finally show "- (2 ^ 31) \<le> uint w" .
    show "uint w < 2 ^ 31" by (rule lt)
  qed
  finally show ?thesis unfolding u .
qed

subsection \<open>The image cache\<close>

text \<open>
  Claim C6: for every non-empty image set with a uniform per-image size and every target
  cache budget in bytes, the number of images kept resident is
  \<open>min(imageCount, floor(targetCacheBytes / perImageBytes))\<close>. The target is the value
  \<open>cacheBytes imageCacheSizeMB\<close> that the program compares with. The per-image size is
  positive (the quotient of the claim needs it), the images together fit the address space,
  and the number of the claim fits the \<open>int\<close> that receives it.
\<close>

theorem C6_imageCacheSize_is_min:
  assumes "0 < unat s" and "unat n * unat s < 2 ^ 64"
    and "min (unat n) (unat (cacheBytes mb) div unat s) < 2 ^ 31"
  shows "sint (imageCacheSize_of n s mb) = int (min (unat n) (unat (cacheBytes mb) div unat s))"
proof -
  have prod: "unat (n * s) = unat n * unat s"
    using assms(2) unat_mult_lem [of n s] by simp
  show ?thesis
  proof (cases "n * s \<le> cacheBytes mb")
    case True
    then have "unat n * unat s \<le> unat (cacheBytes mb)"
      by (simp add: word_le_nat_alt prod)
    then have le: "unat n \<le> unat (cacheBytes mb) div unat s"
      using assms(1) by (simp add: less_eq_div_iff_mult_less_eq)
    have m: "min (unat n) (unat (cacheBytes mb) div unat s) = unat n"
      using le by (rule min_absorb1)
    have small: "unat n < 2 ^ 31" using assms(3) unfolding m .
    have "imageCacheSize_of n s mb = ucast n"
      using True by (simp add: imageCacheSize_of_def)
    then have "sint (imageCacheSize_of n s mb) = int (unat n)"
      using sint_ucast_small [OF small] by (simp only:)
    then show ?thesis unfolding m .
  next
    case False
    then have "unat (cacheBytes mb) < unat n * unat s"
      by (simp add: word_le_nat_alt prod)
    then have lt: "unat (cacheBytes mb) div unat s < unat n"
      using assms(1) by (simp add: div_less_iff_less_mult)
    have d: "unat (cacheBytes mb div s) = unat (cacheBytes mb) div unat s"
      by (rule unat_div)
    have m: "min (unat n) (unat (cacheBytes mb) div unat s) = unat (cacheBytes mb div s)"
      unfolding d using lt by (intro min_absorb2) (rule less_imp_le)
    have small: "unat (cacheBytes mb div s) < 2 ^ 31" using assms(3) unfolding m .
    have "imageCacheSize_of n s mb = ucast (cacheBytes mb div s)"
      using False by (simp add: imageCacheSize_of_def)
    then have "sint (imageCacheSize_of n s mb) = int (unat (cacheBytes mb div s))"
      using sint_ucast_small [OF small] by (simp only:)
    then show ?thesis unfolding m .
  qed
qed

theorem C6_witness:
  "0 < unat (1000000 :: size_t)
   \<and> unat (100 :: size_t) * unat (1000000 :: size_t) < 2 ^ 64
   \<and> unat (cacheBytes 50) = 52428800
   \<and> min (unat (100 :: size_t)) (unat (cacheBytes 50) div unat (1000000 :: size_t)) = 52
   \<and> sint (imageCacheSize_of 100 1000000 50) = 52"
proof -
  have c: "unat (cacheBytes 50) = 52428800" by (simp add: cacheBytes_def)
  have h1: "0 < unat (1000000 :: size_t)" by simp
  have h2: "unat (100 :: size_t) * unat (1000000 :: size_t) < 2 ^ 64" by simp
  have m: "min (unat (100 :: size_t)) (unat (cacheBytes 50) div unat (1000000 :: size_t)) = 52"
    unfolding c by simp
  have h3: "min (unat (100 :: size_t)) (unat (cacheBytes 50) div unat (1000000 :: size_t)) < 2 ^ 31"
    unfolding m by simp
  show ?thesis
    using C6_imageCacheSize_is_min [OF h1 h2 h3] h1 h2 c m by simp
qed

subsection \<open>The plan of a run\<close>

lemma auto_imageCacheSizeMB_0: "auto_imageCacheSizeMB 0 = Inr 0"
  by (simp add: dbl_defs bitlen_nat.simps)

text \<open>
  A request of at least as many bytes as are free is a positive number of megabytes, or the
  automatic size on a device with no free byte; either way the cache check meets a budget
  that is not below the free memory.
\<close>

lemma request_exceeds_free:
  assumes "uint free \<le> sint mb0 * 2 ^ 20"
  shows "\<exists>mb. resolve_imageCacheSizeMB mb0 free = Inr mb \<and> free \<le> cacheBytes mb"
proof (cases "mb0 = 0")
  case True
  then have "uint free \<le> 0" using assms by simp
  moreover have "0 \<le> uint free" by simp
  ultimately have "uint free = 0" by (rule order_antisym)
  then have "free = 0" by (simp only: uint_0_iff)
  then show ?thesis
    using True by (simp add: resolve_imageCacheSizeMB_def auto_imageCacheSizeMB_0)
next
  case False
  have "0 \<le> uint free" by simp
  then have "0 \<le> sint mb0 * 2 ^ 20" using assms by (rule order_trans)
  then have nonneg: "0 \<le> sint mb0" by (simp add: zero_le_mult_iff)
  then have "uint free \<le> uint (cacheBytes mb0)"
    using assms by (simp add: cacheBytes_nonneg)
  then show ?thesis
    using False by (simp add: resolve_imageCacheSizeMB_def word_le_def)
qed

lemma notify_fields:
  assumes "notify n vm = Some opts"
  shows "deviceIds opts = arg_deviceId vm"
    and "imageCacheSizeMB opts = with_default 0 (arg_imageCacheSize vm)"
    and "trainTreesInParallel opts = flag_value True (arg_trainTreesInParallel vm)"
  using assms by (auto simp: notify_def split: option.splits)

lemma main_plan_cache_too_large:
  assumes "resolve_imageCacheSizeMB (imageCacheSizeMB opts)
             (probe_freeMemoryOnGPU (getFreeMemoryOnGPU E) (default_deviceIds (deviceIds opts))) = Inr mb"
    and "loadImages E (folderTraining opts) (useCIELab opts) (useDepthFilling opts) \<noteq> []"
    and "probe_freeMemoryOnGPU (getFreeMemoryOnGPU E) (default_deviceIds (deviceIds opts)) \<le> cacheBytes mb"
  shows "main_plan E opts = Inl (runtime_error ''image cache size too large'')"
  using assms by (simp add: main_plan_def Let_def check_cache_def)

lemma main_plan_no_images:
  assumes "resolve_imageCacheSizeMB (imageCacheSizeMB opts)
             (probe_freeMemoryOnGPU (getFreeMemoryOnGPU E) (default_deviceIds (deviceIds opts))) = Inr mb"
    and "loadImages E (folderTraining opts) (useCIELab opts) (useDepthFilling opts) = []"
  shows "main_plan E opts = Inl (runtime_error (''found no files in '' @ folderTraining opts))"
  using assms by (simp add: main_plan_def Let_def)

lemma main_plan_passes_cache_check:
  assumes "resolve_imageCacheSizeMB (imageCacheSizeMB opts)
             (probe_freeMemoryOnGPU (getFreeMemoryOnGPU E) (default_deviceIds (deviceIds opts))) = Inr mb"
    and "loadImages E (folderTraining opts) (useCIELab opts) (useDepthFilling opts) \<noteq> []"
    and "\<not> probe_freeMemoryOnGPU (getFreeMemoryOnGPU E) (default_deviceIds (deviceIds opts)) \<le> cacheBytes mb"
  shows "main_plan E opts \<noteq> Inl (runtime_error ''image cache size too large'')"
  using assms
  by (auto simp: main_plan_def Let_def check_cache_def maxSamplesPerBatch_of_def
        parseAccelerationModeString_def split: sum.splits if_splits)

lemma main_plan_Inr_cache:
  assumes "main_plan E opts = Inr c"
    and "resolve_imageCacheSizeMB (imageCacheSizeMB opts)
             (probe_freeMemoryOnGPU (getFreeMemoryOnGPU E) (default_deviceIds (deviceIds opts))) = Inr mb"
  shows "cacheBytes mb < probe_freeMemoryOnGPU (getFreeMemoryOnGPU E) (default_deviceIds (deviceIds opts))"
  using assms
  by (auto simp: main_plan_def Let_def check_cache_def split: sum.splits if_splits)

lemma scenario_free:
  "probe_freeMemoryOnGPU (getFreeMemoryOnGPU scenario_env)
     (default_deviceIds (deviceIds scenario_options)) = 4000000000"
  by (simp add: scenario_env_def scenario_options_def default_deviceIds_def
        probe_freeMemoryOnGPU_def)

lemma scenario_resolve: "resolve_imageCacheSizeMB 0 4000000000 = Inr 2517"
  by (simp add: resolve_imageCacheSizeMB_def dbl_defs bitlen_nat.simps)

lemma scenario_notify:
  "notify (default_num_threads scenario_env) scenario_cmdline = Some scenario_options"
  by (simp add: notify_def scenario_cmdline_def scenario_options_def scenario_env_def
        with_default_def flag_value_def)

lemma scenario_plan: "main_plan scenario_env scenario_options = Inr scenario_configuration"
  by (simp add: main_plan_def scenario_env_def scenario_options_def scenario_configuration_def
        default_deviceIds_def probe_freeMemoryOnGPU_def resolve_imageCacheSizeMB_def
        dbl_defs bitlen_nat.simps imageCacheSize_of_def check_cache_def batch_defs
        parseAccelerationModeString_def)

lemma oversized_notify:
  "notify (default_num_threads scenario_env) oversized_cmdline = Some oversized_options"
  by (simp add: notify_def oversized_cmdline_def oversized_options_def scenario_cmdline_def
        scenario_options_def scenario_env_def with_default_def flag_value_def)

text \<open>
  Claim C4: for every requested or automatically computed cache budget, the run fails with
  "image cache size too large" exactly when that budget in bytes is at least the free
  memory, so that on every successful run the budget is strictly below the free memory.
  The budget in bytes is \<open>cacheBytes\<close> of the resolved number of megabytes, the value the
  program compares and later subtracts; for a number of megabytes that is not negative it is
  that number times \<open>2 ^ 20\<close> (a negative number of megabytes is sign-extended to a
  budget of at least \<open>2 ^ 64 - 2 ^ 51\<close> bytes). The run is one that found images (an
  empty folder stops it earlier) and whose automatic size, if used, fits an \<open>int\<close>.
\<close>

theorem C4_cache_too_large_iff:
  assumes "resolve_imageCacheSizeMB (imageCacheSizeMB opts)
             (probe_freeMemoryOnGPU (getFreeMemoryOnGPU E) (default_deviceIds (deviceIds opts))) = Inr mb"
    and "loadImages E (folderTraining opts) (useCIELab opts) (useDepthFilling opts) \<noteq> []"
  shows "(main_plan E opts = Inl (runtime_error ''image cache size too large'')
            \<longleftrightarrow> probe_freeMemoryOnGPU (getFreeMemoryOnGPU E) (default_deviceIds (deviceIds opts))
                  \<le> cacheBytes mb)
       \<and> (\<forall>c. main_plan E opts = Inr c \<longrightarrow>
             cacheBytes mb < probe_freeMemoryOnGPU (getFreeMemoryOnGPU E) (default_deviceIds (deviceIds opts)))
       \<and> (0 \<le> sint mb \<longrightarrow> uint (cacheBytes mb) = sint mb * 2 ^ 20)"
  using main_plan_cache_too_large [OF assms] main_plan_passes_cache_check [OF assms]
    main_plan_Inr_cache [OF _ assms(1)] cacheBytes_nonneg [of mb]
  by blast


theorem C4_witness:
  "resolve_imageCacheSizeMB (imageCacheSizeMB scenario_options)
     (probe_freeMemoryOnGPU (getFreeMemoryOnGPU scenario_env)
        (default_deviceIds (deviceIds scenario_options))) = Inr 2517
   \<and> loadImages scenario_env (folderTraining scenario_options) (useCIELab scenario_options)
        (useDepthFilling scenario_options) \<noteq> []
   \<and> main_plan scenario_env scenario_options = Inr scenario_configuration
   \<and> 0 \<le> sint (2517 :: c_int)
   \<and> main_plan scenario_env scenario_options \<noteq> Inl (runtime_error ''image cache size too large'')
   \<and> cacheBytes 2517 < probe_freeMemoryOnGPU (getFreeMemoryOnGPU scenario_env)
        (default_deviceIds (deviceIds scenario_options))
   \<and> uint (cacheBytes 2517) = sint (2517 :: c_int) * 2 ^ 20"
proof -
  have h1: "resolve_imageCacheSizeMB (imageCacheSizeMB scenario_options)
     (probe_freeMemoryOnGPU (getFreeMemoryOnGPU scenario_env)
        (default_deviceIds (deviceIds scenario_options))) = Inr 2517"
    unfolding scenario_free using scenario_resolve by (simp add: scenario_options_def)
  have h2: "loadImages scenario_env (folderTraining scenario_options) (useCIELab scenario_options)
        (useDepthFilling scenario_options) \<noteq> []"
    by (simp add: scenario_env_def)
  have h3: "0 \<le> sint (2517 :: c_int)" by simp
  show ?thesis
    using C4_cache_too_large_iff [OF h1 h2] h1 h2 h3 scenario_plan by simp
qed

text \<open>
  Claim C10: the cache check compares only the requested (or automatic) budget with the
  free memory, never the bytes that the cached images occupy. Whenever the requested
  megabytes times \<open>2 ^ 20\<close> reach the free memory the run fails, whatever the images are;
  and replacing the image set by any other non-empty image set never changes whether, or
  with which error, the plan fails.
\<close>

theorem C10_check_ignores_consumed_bytes:
  assumes "loadImages E (folderTraining opts) (useCIELab opts) (useDepthFilling opts) \<noteq> []"
    and "L (folderTraining opts) (useCIELab opts) (useDepthFilling opts) \<noteq> []"
  shows "(uint (probe_freeMemoryOnGPU (getFreeMemoryOnGPU E) (default_deviceIds (deviceIds opts)))
              \<le> sint (imageCacheSizeMB opts) * 2 ^ 20
            \<longrightarrow> main_plan E opts = Inl (runtime_error ''image cache size too large''))
       \<and> (\<forall>e. main_plan (E\<lparr>loadImages := L\<rparr>) opts = Inl e \<longleftrightarrow> main_plan E opts = Inl e)"
proof -
  have a: "main_plan E opts = Inl (runtime_error ''image cache size too large'')"
    if "uint (probe_freeMemoryOnGPU (getFreeMemoryOnGPU E) (default_deviceIds (deviceIds opts)))
              \<le> sint (imageCacheSizeMB opts) * 2 ^ 20"
    using request_exceeds_free [OF that] main_plan_cache_too_large [OF _ assms(1)] by blast
  have b: "main_plan (E\<lparr>loadImages := L\<rparr>) opts = Inl e \<longleftrightarrow> main_plan E opts = Inl e" for e
    using assms by (auto simp: main_plan_def Let_def split: sum.splits)
  show ?thesis using a b by blast
qed


theorem C10_witness:
  "loadImages scenario_env (folderTraining oversized_options) (useCIELab oversized_options)
        (useDepthFilling oversized_options) = replicate 100 1000000
   \<and> replicate 100 (1000000 :: size_t) \<noteq> []
   \<and> [1 :: size_t] \<noteq> []
   \<and> uint (probe_freeMemoryOnGPU (getFreeMemoryOnGPU scenario_env)
              (default_deviceIds (deviceIds oversized_options))) = 4000000000
   \<and> sint (imageCacheSizeMB oversized_options) * 2 ^ 20 = 4194304000
   \<and> main_plan scenario_env oversized_options = Inl (runtime_error ''image cache size too large'')
   \<and> main_plan (scenario_env\<lparr>loadImages := \<lambda>folder cielab filling. [1]\<rparr>) oversized_options
        = Inl (runtime_error ''image cache size too large'')"
proof -
  have h1: "loadImages scenario_env (folderTraining oversized_options) (useCIELab oversized_options)
        (useDepthFilling oversized_options) \<noteq> []"
    by (simp add: scenario_env_def)
  have h2: "(\<lambda>folder cielab filling. [1 :: size_t]) (folderTraining oversized_options)
        (useCIELab oversized_options) (useDepthFilling oversized_options) \<noteq> []"
    by simp
  have f: "uint (probe_freeMemoryOnGPU (getFreeMemoryOnGPU scenario_env)
              (default_deviceIds (deviceIds oversized_options))) = 4000000000"
    by (simp add: scenario_env_def oversized_options_def scenario_options_def
          default_deviceIds_def probe_freeMemoryOnGPU_def)
  have m: "sint (imageCacheSizeMB oversized_options) * 2 ^ 20 = 4194304000"
    by (simp add: oversized_options_def)
  show ?thesis
    using C10_check_ignores_consumed_bytes [OF h1 h2] f m by (simp add: scenario_env_def)
qed

subsection \<open>The run\<close>

text \<open>
  Claim C9: when \<open>trainTreesInParallel\<close> is not supplied on the command line its value is
  \<open>true\<close>, so by default the trainer is called with the sequential flag \<open>false\<close>: training
  the trees in parallel is the default. (The help text of the option names the sequential
  mode as the default; the value that the program uses is the one stated here.)
\<close>

theorem C9_parallel_training_by_default:
  assumes "arg_trainTreesInParallel vm = absent"
  shows "(\<forall>opts. notify (default_num_threads E) vm = Some opts \<longrightarrow> trainTreesInParallel opts)
       \<and> (\<forall>t c s. RandomForest_train t c s \<in> set (fst (main E vm)) \<longrightarrow> \<not> s)"
proof -
  have a: "trainTreesInParallel opts" if "notify (default_num_threads E) vm = Some opts" for opts
    using notify_fields(3) [OF that] assms by (simp add: flag_value_def)
  have b: "\<not> s" if "RandomForest_train t c s \<in> set (fst (main E vm))" for t c s
    using that a
    by (auto simp: main_def train_def split: if_splits option.splits sum.splits)
  show ?thesis using a b by blast
qed


theorem C9_witness:
  "arg_trainTreesInParallel scenario_cmdline = absent
   \<and> notify (default_num_threads scenario_env) scenario_cmdline = Some scenario_options
   \<and> trainTreesInParallel scenario_options
   \<and> fst (main scenario_env scenario_cmdline)
        = [RandomForest_train 3 scenario_configuration False, Warning_no_output_folder]"
proof -
  have h: "arg_trainTreesInParallel scenario_cmdline = absent"
    by (simp add: scenario_cmdline_def)
  have m: "fst (main scenario_env scenario_cmdline)
        = [RandomForest_train 3 scenario_configuration False, Warning_no_output_folder]"
    using scenario_notify scenario_plan
    by (simp add: main_def train_def scenario_cmdline_def scenario_options_def)
  show ?thesis
    using C9_parallel_training_by_default [OF h, of scenario_env] h m scenario_notify by simp
qed

text \<open>
  Claim C8: in every run in which the requested image cache size in MB is at least the free
  memory divided by 1024 and again by 1024 (the exact quotient: the requested megabytes
  times \<open>2 ^ 20\<close> are at least the free bytes), the trainer is never called; and the run
  that gets as far as loading images ends with the uncaught error
  "image cache size too large", with no event before it.
\<close>

theorem C8_no_training_after_oversized_request:
  assumes "uint (probe_freeMemoryOnGPU (getFreeMemoryOnGPU E) (default_deviceIds (arg_deviceId vm)))
             \<le> sint (with_default 0 (arg_imageCacheSize vm)) * 2 ^ 20"
  shows "(\<forall>t c s. RandomForest_train t c s \<notin> set (fst (main E vm)))
       \<and> (\<forall>opts. argc vm > 1 \<and> \<not> arg_help vm \<and> \<not> arg_version vm
             \<and> notify (default_num_threads E) vm = Some opts
             \<and> loadImages E (folderTraining opts) (useCIELab opts) (useDepthFilling opts) \<noteq> []
           \<longrightarrow> main E vm = ([], Uncaught (runtime_error ''image cache size too large'')))"
proof -
  have plan: "main_plan E opts =
      (if loadImages E (folderTraining opts) (useCIELab opts) (useDepthFilling opts) = []
       then Inl (runtime_error (''found no files in '' @ folderTraining opts))
       else Inl (runtime_error ''image cache size too large''))"
    if n: "notify (default_num_threads E) vm = Some opts" for opts
  proof -
    have "uint (probe_freeMemoryOnGPU (getFreeMemoryOnGPU E) (default_deviceIds (deviceIds opts)))
             \<le> sint (imageCacheSizeMB opts) * 2 ^ 20"
      using assms notify_fields(1,2) [OF n] by simp
    from request_exceeds_free [OF this] obtain mb where
      mb: "resolve_imageCacheSizeMB (imageCacheSizeMB opts)
             (probe_freeMemoryOnGPU (getFreeMemoryOnGPU E) (default_deviceIds (deviceIds opts))) = Inr mb"
      and le: "probe_freeMemoryOnGPU (getFreeMemoryOnGPU E) (default_deviceIds (deviceIds opts)) \<le> cacheBytes mb"
      by blast
    show ?thesis
      using main_plan_cache_too_large [OF mb _ le] main_plan_no_images [OF mb] by auto
  qed
  have no_train: "RandomForest_train t c s \<notin> set (fst (main E vm))" for t c s
    using plan by (auto simp: main_def split: option.splits sum.splits if_splits)
  have abort: "main E vm = ([], Uncaught (runtime_error ''image cache size too large''))"
    if "argc vm > 1" "\<not> arg_help vm" "\<not> arg_version vm"
      "notify (default_num_threads E) vm = Some opts"
      "loadImages E (folderTraining opts) (useCIELab opts) (useDepthFilling opts) \<noteq> []" for opts
    using that plan [OF that(4)] by (simp add: main_def)
  show ?thesis using no_train abort by blast
qed


theorem C8_witness:
  "uint (probe_freeMemoryOnGPU (getFreeMemoryOnGPU scenario_env)
           (default_deviceIds (arg_deviceId oversized_cmdline))) = 4000000000
   \<and> sint (with_default 0 (arg_imageCacheSize oversized_cmdline)) * 2 ^ 20 = 4194304000
   \<and> argc oversized_cmdline > 1
   \<and> notify (default_num_threads scenario_env) oversized_cmdline = Some oversized_options
   \<and> loadImages scenario_env (folderTraining oversized_options) (useCIELab oversized_options)
        (useDepthFilling oversized_options) \<noteq> []
   \<and> main scenario_env oversized_cmdline
        = ([], Uncaught (runtime_error ''image cache size too large''))"
proof -
  have f: "uint (probe_freeMemoryOnGPU (getFreeMemoryOnGPU scenario_env)
           (default_deviceIds (arg_deviceId oversized_cmdline))) = 4000000000"
    by (simp add: scenario_env_def oversized_cmdline_def scenario_cmdline_def
          default_deviceIds_def probe_freeMemoryOnGPU_def)
  have m: "sint (with_default 0 (arg_imageCacheSize oversized_cmdline)) * 2 ^ 20 = 4194304000"
    by (simp add: oversized_cmdline_def with_default_def)
  have h: "uint (probe_freeMemoryOnGPU (getFreeMemoryOnGPU scenario_env)
           (default_deviceIds (arg_deviceId oversized_cmdline)))
        \<le> sint (with_default 0 (arg_imageCacheSize oversized_cmdline)) * 2 ^ 20"
    unfolding f m by simp
  have a: "argc oversized_cmdline > 1 \<and> \<not> arg_help oversized_cmdline
        \<and> \<not> arg_version oversized_cmdline"
    by (simp add: oversized_cmdline_def scenario_cmdline_def)
  have i: "loadImages scenario_env (folderTraining oversized_options) (useCIELab oversized_options)
        (useDepthFilling oversized_options) \<noteq> []"
    by (simp add: scenario_env_def)
  show ?thesis
    using C8_no_training_after_oversized_request [OF h] f m a i oversized_notify by simp
qed

subsection \<open>The automatic cache size\<close>

text \<open>
  The double-precision computation of line 159, below \<open>2 ^ 47\<close> free bytes: the conversion
  of the free memory is exact, the product with 0.66 is rounded once, and the truncated
  number of megabytes is the exact floor of \<open>0.66 * freeMemoryOnGPU / 2 ^ 20\<close>.
\<close>

lemma bitlen_nat_le: "n < 2 ^ k \<Longrightarrow> bitlen_nat n \<le> k"
proof (induction k arbitrary: n)
  case 0
  then have "n = 0" by simp
  then show ?case by (simp add: bitlen_nat.simps)
next
  case (Suc k)
  show ?case
  proof (cases "n = 0")
    case True
    then show ?thesis by (simp add: bitlen_nat.simps)
  next
    case False
    have "n div 2 < 2 ^ k" using Suc.prems by simp
    then have "bitlen_nat (n div 2) \<le> k" by (rule Suc.IH)
    then show ?thesis using False by (subst bitlen_nat.simps) simp
  qed
qed

lemma round_half_even_bounds:
  "n div 2 ^ s \<le> round_half_even n s \<and> round_half_even n s \<le> n div 2 ^ s + 1"
  by (simp add: round_half_even_def Let_def)

lemma round_half_even_0: "round_half_even n 0 = n"
  by (simp add: round_half_even_def)

lemma dbl_round_alt:
  "dbl_round (m, e) = (round_half_even m (bitlen_nat m - 53), e + int (bitlen_nat m - 53))"
  by (simp add: dbl_round_def Let_def round_half_even_0)

lemma floor_two_thirds:
  fixes x s R :: nat
  assumes x: "x < 2 ^ 47" and s: "s \<le> 47"
    and lo: "(x * 5944751508129055) div 2 ^ s \<le> R"
    and hi: "R \<le> (x * 5944751508129055) div 2 ^ s + 1"
  shows "R div 2 ^ (73 - s) = (33 * x) div 52428800"
proof -
  define K where "K = (33 * x) div 52428800"
  define N where "N = x * 5944751508129055"
  define T :: nat where "T = 2 ^ s"
  define P :: nat where "P = 2 ^ (73 - s)"
  define q where "q = N div T"
  have Tpos: "0 < T" by (simp add: T_def)
  have "T \<le> 2 ^ 47" unfolding T_def using s by (intro power_increasing) simp_all
  then have Tle: "T \<le> 140737488355328" by simp
  have xlt: "x < 140737488355328" using x by simp
  have "P * T = 2 ^ (73 - s + s)" unfolding P_def T_def by (simp only: power_add)
  also have "73 - s + s = 73" using s by simp
  finally have PT: "P * T = 9444732965739290427392" by simp
  have f1: "K * 52428800 \<le> 33 * x" unfolding K_def by simp
  have f2: "33 * x < (K + 1) * 52428800"
    unfolding K_def using dividend_less_div_times [of 52428800 "33 * x"] by simp
  have a: "K * 9444732965739290427392 \<le> N" unfolding N_def using f1 by linarith
  have b: "N + T < (K + 1) * 9444732965739290427392"
    unfolding N_def using f2 xlt Tle by linarith
  have qT: "q * T \<le> N" unfolding q_def by simp
  have e: "K * P * T = K * 9444732965739290427392" by (simp only: mult.assoc PT)
  have "K * P * T \<le> N" unfolding e by (rule a)
  then have "K * P \<le> q" unfolding q_def using Tpos by (simp add: less_eq_div_iff_mult_less_eq)
  then have lower: "K * P \<le> R" using lo unfolding N_def [symmetric] T_def [symmetric] q_def [symmetric]
    by (rule order_trans)
  have "(q + 1) * T = q * T + T" by (simp add: algebra_simps)
  also have "\<dots> \<le> N + T" using qT by simp
  also have "\<dots> < (K + 1) * 9444732965739290427392" by (rule b)
  also have "\<dots> = (K + 1) * P * T" by (simp only: mult.assoc PT)
  finally have "(q + 1) * T < (K + 1) * P * T" .
  then have "q + 1 < (K + 1) * P"
    using mult_less_cancel2 [of "q + 1" T "(K + 1) * P"] by blast
  moreover have "R \<le> q + 1"
    using hi unfolding N_def [symmetric] T_def [symmetric] q_def [symmetric] .
  ultimately have upper: "R < P * Suc K" by (simp add: mult.commute)
  have "P * K \<le> R" using lower by (simp add: mult.commute)
  then have "R div P = K" using upper by (rule div_nat_eqI)
  then show ?thesis unfolding P_def K_def .
qed


lemma sint_word_of_nat_small:
  assumes "k < 2 ^ 31"
  shows "sint (word_of_nat k :: c_int) = int k"
proof -
  have "sint (word_of_nat k :: c_int) = signed_take_bit (31::nat) (int k)"
    by (simp add: signed_of_nat)
  also have "\<dots> = int k"
  proof (rule signed_take_bit_int_eq_self)
    have "- (2 ^ 31 :: int) \<le> 0" by simp
    also have "0 \<le> int k" by simp
    finally show "- (2 ^ 31) \<le> int k" .
    have "int k < int (2 ^ 31)" using assms by (simp only: of_nat_less_iff)
    then show "int k < 2 ^ 31" by simp
  qed
  finally show ?thesis .
qed

lemma auto_imageCacheSizeMB_floor:
  assumes "unat free < 2 ^ 47"
  shows "auto_imageCacheSizeMB free = Inr (word_of_nat ((33 * unat free) div 52428800))"
proof -
  define x where "x = unat free"
  define N where "N = x * 5944751508129055"
  define s where "s = bitlen_nat N - 53"
  define R where "R = round_half_even N s"
  have x: "x < 2 ^ 47" using assms by (simp add: x_def)
  have "bitlen_nat x \<le> 47" using x by (rule bitlen_nat_le)
  then have bx: "bitlen_nat x - 53 = 0" by simp
  have conv: "dbl_of_size_t free = (x, 0)"
    unfolding dbl_of_size_t_def x_def [symmetric] dbl_round_alt bx
    by (simp add: round_half_even_0)
  have "x * 5944751508129055 < 2 ^ 47 * 2 ^ 53"
    using x by (intro mult_strict_mono) simp_all
  then have "N < 2 ^ 100" unfolding N_def by simp
  then have "bitlen_nat N \<le> 100" by (rule bitlen_nat_le)
  then have s: "s \<le> 47" unfolding s_def by simp
  have prod: "dbl_times (dbl_of_size_t free) dbl_0_66 = (R, int s - 53)"
    unfolding conv dbl_times_def dbl_0_66_def
    by (simp add: dbl_round_alt N_def [symmetric] s_def [symmetric] R_def [symmetric])
  have "nat (73 - int s) = 73 - s" using s by simp
  then have trunc: "dbl_trunc (dbl_div_1024 (dbl_div_1024 (R, int s - 53))) = R div 2 ^ (73 - s)"
    using s by (simp add: dbl_trunc_def dbl_div_1024_def)
  have bounds: "N div 2 ^ s \<le> R \<and> R \<le> N div 2 ^ s + 1"
    unfolding R_def by (rule round_half_even_bounds)
  have k: "R div 2 ^ (73 - s) = (33 * x) div 52428800"
    using bounds unfolding N_def by (intro floor_two_thirds [OF x s]) simp_all
  have "(33 * x) div 52428800 < 2 ^ 31" using x by simp
  then show ?thesis
    unfolding auto_imageCacheSizeMB_def prod int_of_dbl_def trunc k
    by (simp add: Let_def x_def)
qed

text \<open>
  Claim C5: when the requested cache size is 0, the target cache budget in bytes is exactly
  \<open>0.66 * totalFreeBytes\<close>, for every value of \<open>totalFreeBytes\<close>. The program keeps the
  budget as an \<open>int\<close> number of megabytes, so the budget in bytes is a multiple of
  \<open>2 ^ 20\<close>: with 4,000,000,000 free bytes it is 2517 MB, that is 2,639,265,792 bytes,
  and not 2,640,000,000.
\<close>

theorem C5_auto_budget_not_exact:
  "resolve_imageCacheSizeMB 0 4000000000 = Inr 2517
   \<and> uint (cacheBytes 2517) = 2639265792
   \<and> 100 * uint (cacheBytes 2517) \<noteq> 66 * uint (4000000000 :: size_t)"
  by (simp add: scenario_resolve cacheBytes_def)

text \<open>
  Claim C5, amended: when the requested cache size is 0 and fewer than \<open>2 ^ 47\<close> bytes
  (128 TiB) are free, the target cache budget is \<open>0.66 * totalFreeBytes\<close> rounded down to
  whole megabytes: \<open>floor(0.66 * totalFreeBytes / 2 ^ 20) * 2 ^ 20\<close> bytes.
\<close>

theorem C5_auto_budget_is_whole_megabytes:
  assumes "unat free < 2 ^ 47"
  shows "\<exists>mb. resolve_imageCacheSizeMB 0 free = Inr mb
           \<and> uint (cacheBytes mb) = (66 * uint free) div (100 * 2 ^ 20) * 2 ^ 20"
proof -
  define k where "k = (33 * unat free) div 52428800"
  have klt: "k < 2 ^ 31" using assms by (simp add: k_def)
  have r: "resolve_imageCacheSizeMB 0 free = Inr (word_of_nat k)"
    unfolding k_def using auto_imageCacheSizeMB_floor [OF assms]
    by (simp add: resolve_imageCacheSizeMB_def)
  have sk: "sint (word_of_nat k :: c_int) = int k" using klt by (rule sint_word_of_nat_small)
  have "uint (cacheBytes (word_of_nat k)) = sint (word_of_nat k :: c_int) * 2 ^ 20"
    by (rule cacheBytes_nonneg) (simp only: sk of_nat_0_le_iff)
  also have "\<dots> = int k * 2 ^ 20" by (simp only: sk)
  also have "int k = (33 * uint free) div 52428800"
    unfolding k_def by (simp add: zdiv_int)
  also have "(33 * uint free) div 52428800 = (66 * uint free) div (100 * 2 ^ 20)"
  proof -
    have "(2 * (33 * uint free)) div (2 * 52428800) = (33 * uint free) div 52428800"
      by (rule div_mult_mult1) simp
    then show ?thesis by simp
  qed
  finally show ?thesis using r by blast
qed

theorem C5_witness:
  "unat (4000000000 :: size_t) < 2 ^ 47
   \<and> resolve_imageCacheSizeMB 0 4000000000 = Inr 2517
   \<and> uint (cacheBytes 2517) = (66 * uint (4000000000 :: size_t)) div (100 * 2 ^ 20) * 2 ^ 20"
proof -
  have h: "unat (4000000000 :: size_t) < 2 ^ 47" by simp
  from C5_auto_budget_is_whole_megabytes [OF h] obtain mb where
    a: "resolve_imageCacheSizeMB 0 4000000000 = Inr mb" and
    b: "uint (cacheBytes mb) = (66 * uint (4000000000 :: size_t)) div (100 * 2 ^ 20) * 2 ^ 20"
    by blast
  from a have "mb = 2517" by (simp add: scenario_resolve)
  with a b h show ?thesis by simp
qed

end
